theory Spec2Isabelle
  imports Main "HOL-Library.AList"
begin

section \<open>JavaScript values\<close>

text \<open>
  A JavaScript string is a sequence of UTF-16 code units; a code unit is modelled by its
  number, so that \<open>charCodeAt\<close> is the identity and no input string is excluded.
  \<open>str\<close> turns a literal of the theory into such a string.
\<close>

type_synonym jsstring = "nat list"

definition str :: "string \<Rightarrow> jsstring" where
  "str s = map of_char s"

text \<open>JSON numbers are IEEE doubles; no claim computes with them, so the carrier is left open.\<close>

typedecl jsnumber

datatype json =
    JNull
  | JBool bool
  | JNum jsnumber
  | JStr jsstring
  | JArr "json list"
  | JObj "(jsstring \<times> json) list"

text \<open>A JavaScript value that may be \<open>undefined\<close>: \<open>None\<close> is \<open>undefined\<close>.\<close>

type_synonym jsval = "json option"

datatype exn = InvalidCharacterError | URIError | SyntaxError | Rejection jsstring

text \<open>\<open>try { body } catch { handler }\<close>: a thrown exception is \<open>Inl\<close>.\<close>

definition try_catch :: "exn + 'a \<Rightarrow> (exn \<Rightarrow> exn + 'a) \<Rightarrow> exn + 'a" where
  "try_catch body handler = (case body of Inl e \<Rightarrow> handler e | Inr v \<Rightarrow> Inr v)"

text \<open>
  The platform operations \<open>decodeToken\<close> calls are not code of the repository: they are
  parameters of the model. Each returns \<open>Inl\<close> where the platform throws.
\<close>

record platform =
  atob :: "jsstring \<Rightarrow> exn + jsstring"
  decodeURIComponent :: "jsstring \<Rightarrow> exn + jsstring"
  JSON_parse :: "jsstring \<Rightarrow> exn + json"

section \<open>Token claims extraction (UserAvatar: decodeToken)\<close>

text \<open>\<open>s.split(sep)\<close> for a one-character separator: never empty, \<open>"".split(".")\<close> is \<open>[""]\<close>.\<close>

fun split :: "nat \<Rightarrow> jsstring \<Rightarrow> jsstring list" where
  "split sep [] = [[]]"
| "split sep (c # cs) =
     (if c = sep then [] # split sep cs
      else (case split sep cs of p # ps \<Rightarrow> (c # p) # ps | [] \<Rightarrow> [[c]]))"

text \<open>\<open>s.replace(/a/g, "b")\<close> for single characters.\<close>

definition replace :: "nat \<Rightarrow> nat \<Rightarrow> jsstring \<Rightarrow> jsstring" where
  "replace a b s = map (\<lambda>c. if c = a then b else c) s"

definition hexdigit :: "nat \<Rightarrow> nat" where
  "hexdigit d = (if d < 10 then 48 + d else 87 + d)"

text \<open>\<open>n.toString(16)\<close>: lower-case hexadecimal digits, no leading zero.\<close>

fun toString16 :: "nat \<Rightarrow> jsstring" where
  "toString16 n =
     (if n < 16 then [hexdigit n] else toString16 (n div 16) @ [hexdigit (n mod 16)])"

declare toString16.simps [simp del]

text \<open>\<open>s.slice(-k)\<close>: the last \<open>k\<close> code units, the whole string when it is shorter.\<close>

definition slice_last :: "nat \<Rightarrow> jsstring \<Rightarrow> jsstring" where
  "slice_last k s = drop (length s - k) s"

text \<open>\<open>"%" + ("00" + c.charCodeAt(0).toString(16)).slice(-2)\<close>\<close>

definition percent :: "nat \<Rightarrow> jsstring" where
  "percent c = str ''%'' @ slice_last 2 (str ''00'' @ toString16 c)"

text \<open>\<open>.split("").map(percent).join("")\<close>\<close>

definition percent_all :: "jsstring \<Rightarrow> jsstring" where
  "percent_all s = concat (map percent s)"

definition base64_of :: "jsstring \<Rightarrow> jsstring" where
  "base64_of payload = replace 95 47 (replace 45 43 payload)"

definition decodeToken_body :: "platform \<Rightarrow> jsstring \<Rightarrow> exn + json" where
  "decodeToken_body env token =
     (let parts = split 46 token in
      if length parts \<noteq> 3 then Inr JNull
      else
        let payload = parts ! 1;
            base64 = base64_of payload
        in (case atob env base64 of
              Inl e \<Rightarrow> Inl e
            | Inr bin \<Rightarrow>
                (case decodeURIComponent env (percent_all bin) of
                   Inl e \<Rightarrow> Inl e
                 | Inr jsonPayload \<Rightarrow> JSON_parse env jsonPayload)))"

definition decodeToken :: "platform \<Rightarrow> jsstring \<Rightarrow> exn + json" where
  "decodeToken env token = try_catch (decodeToken_body env token) (\<lambda>e. Inr JNull)"

section \<open>The external client and the User projection (KeycloakAuthProvider: extractUser)\<close>

text \<open>
  The handlers the provider installs on a client are closures of the provider; the model
  names each by a tag and interprets the tags in \<open>run_handler\<close> below.
\<close>

datatype handler = TokenExpiredHandler | AuthSuccessHandler | AuthLogoutHandler

text \<open>
  An instance of the external client as the repository's code reads it: the parsed
  tokens and the raw tokens (\<open>None\<close> is \<open>undefined\<close>), the two role queries, and the
  three handler slots.
\<close>

record Keycloak =
  idTokenParsed :: "(jsstring \<times> json) list option"
  tokenParsed :: "(jsstring \<times> json) list option"
  idToken :: "jsstring option"
  token :: "jsstring option"
  hasResourceRole :: "jsstring \<Rightarrow> bool"
  hasRealmRole :: "jsstring \<Rightarrow> bool"
  onTokenExpired :: "handler option"
  onAuthSuccess :: "handler option"
  onAuthLogout :: "handler option"

record user =
  id' :: jsval
  email :: jsval
  emailVerified :: jsval
  name :: jsval
  firstName :: jsval
  lastName :: jsval
  username :: jsval
  imageUrl :: jsval
  claims :: "(jsstring \<times> json) list"

text \<open>\<open>obj.k\<close> on a parsed token object: \<open>undefined\<close> when the key is missing.\<close>

definition get :: "(jsstring \<times> json) list \<Rightarrow> string \<Rightarrow> jsval" where
  "get obj k = map_of obj (str k)"

text \<open>\<open>a || b\<close> on values that are an object or \<open>undefined\<close>: an object is truthy.\<close>

definition or_else :: "'a option \<Rightarrow> 'a option \<Rightarrow> 'a option" where
  "or_else a b = (case a of Some x \<Rightarrow> Some x | None \<Rightarrow> b)"

definition extractUser :: "Keycloak \<Rightarrow> user option" where
  "extractUser keycloak =
     (case or_else (idTokenParsed keycloak) (tokenParsed keycloak) of
        None \<Rightarrow> None
      | Some tokenParsed' \<Rightarrow>
          Some \<lparr> id' = get tokenParsed' ''sub'',
                 email = get tokenParsed' ''email'',
                 emailVerified = get tokenParsed' ''email_verified'',
                 name = get tokenParsed' ''name'',
                 firstName = get tokenParsed' ''given_name'',
                 lastName = get tokenParsed' ''family_name'',
                 username = get tokenParsed' ''preferred_username'',
                 imageUrl = get tokenParsed' ''picture'',
                 claims = tokenParsed' \<rparr>)"

section \<open>The provider (KeycloakAuthProvider)\<close>

text \<open>
  A callback of the props is a function of the application: the model keeps its identity
  only, and records each invocation with its arguments.
\<close>

type_synonym callback = nat

record KeycloakAuthProviderProps =
  url :: jsstring
  realm :: jsstring
  clientId :: jsstring
  initOptions :: "(jsstring \<times> json) list option"
  onAuthStateChangeProp :: "callback option"
  onTokenExpiredProp :: "callback option"
  onErrorProp :: "callback option"

datatype notification =
    AuthStateChange callback bool "user option"
  | TokenExpired callback
  | Error callback exn
  | ConsoleError exn

text \<open>A method of the external client the provider invoked, with its argument.\<close>

datatype call =
    Init "(jsstring \<times> json) list"
  | Login jsstring
  | Logout jsstring
  | Register jsstring
  | UpdateToken nat

text \<open>The three state variables every consumer reads.\<close>

record snapshot =
  isLoading :: bool
  isAuthenticated :: bool
  user :: "user option"

text \<open>
  The component's state and refs, and the world it acts on. Client instances are kept in
  a store and referred to by address, as the JavaScript objects are by reference.
\<close>

record provider = snapshot +
  keycloak :: "nat option"
  initializingRef :: bool
  initializedRef :: bool
  onAuthStateChangeRef :: "callback option"
  onTokenExpiredRef :: "callback option"
  onErrorRef :: "callback option"
  instances :: "Keycloak list"
  pending :: "nat list"
  calls :: "(nat \<times> call) list"
  notified :: "notification list"

text \<open>The state of a freshly rendered provider: \<open>useState\<close> and \<open>useRef\<close> initial values.\<close>

definition initial :: "KeycloakAuthProviderProps \<Rightarrow> provider" where
  "initial p =
     \<lparr> isLoading = True, isAuthenticated = False, user = None,
       keycloak = None, initializingRef = False, initializedRef = False,
       onAuthStateChangeRef = onAuthStateChangeProp p,
       onTokenExpiredRef = onTokenExpiredProp p,
       onErrorRef = onErrorProp p,
       instances = [], pending = [], calls = [], notified = [] \<rparr>"

definition instance_at :: "provider \<Rightarrow> nat \<Rightarrow> Keycloak option" where
  "instance_at s k = (if k < length (instances s) then Some (instances s ! k) else None)"

text \<open>\<open>new Keycloak(config)\<close>: no tokens, no roles, no handlers.\<close>

definition new_Keycloak :: Keycloak where
  "new_Keycloak =
     \<lparr> idTokenParsed = None, tokenParsed = None, idToken = None, token = None,
       hasResourceRole = (\<lambda>role. False), hasRealmRole = (\<lambda>role. False),
       onTokenExpired = None, onAuthSuccess = None, onAuthLogout = None \<rparr>"

text \<open>\<open>{ ...base, ...ext }\<close>: a key of \<open>ext\<close> overwrites the key of \<open>base\<close> in place.\<close>

definition spread :: "(jsstring \<times> json) list \<Rightarrow> (jsstring \<times> json) list option \<Rightarrow> (jsstring \<times> json) list" where
  "spread base ext =
     (case ext of None \<Rightarrow> base
      | Some kvs \<Rightarrow> fold (\<lambda>(k, v). AList.update k v) kvs base)"

definition defaultInitOptions :: "KeycloakAuthProviderProps \<Rightarrow> (jsstring \<times> json) list" where
  "defaultInitOptions p = spread [(str ''pkceMethod'', JStr (str ''S256''))] (initOptions p)"

text \<open>
  \<open>ref.current?.(args)\<close>: the callback is invoked when there is one. What the
  application does in a callback is outside the model; a callback is taken to return.
\<close>

definition call_onAuthStateChange :: "bool \<Rightarrow> user option \<Rightarrow> provider \<Rightarrow> provider" where
  "call_onAuthStateChange b u s =
     (case onAuthStateChangeRef s of
        None \<Rightarrow> s
      | Some cb \<Rightarrow> s\<lparr>notified := notified s @ [AuthStateChange cb b u]\<rparr>)"

definition call_onTokenExpired :: "provider \<Rightarrow> provider" where
  "call_onTokenExpired s =
     (case onTokenExpiredRef s of
        None \<Rightarrow> s
      | Some cb \<Rightarrow> s\<lparr>notified := notified s @ [TokenExpired cb]\<rparr>)"

definition call_onError :: "exn \<Rightarrow> provider \<Rightarrow> provider" where
  "call_onError e s =
     (case onErrorRef s of
        None \<Rightarrow> s
      | Some cb \<Rightarrow> s\<lparr>notified := notified s @ [Error cb e]\<rparr>)"

text \<open>
  The three handlers of the init effect, for the client at address \<open>k\<close> (the \<open>kc\<close> the
  closures capture).
\<close>

fun run_handler :: "handler \<Rightarrow> nat \<Rightarrow> provider \<Rightarrow> provider" where
  "run_handler TokenExpiredHandler k s =
     call_onTokenExpired
       (call_onAuthStateChange False None (s\<lparr>isAuthenticated := False, user := None\<rparr>))"
| "run_handler AuthSuccessHandler k s =
     (let extractedUser = (case instance_at s k of None \<Rightarrow> None | Some kc \<Rightarrow> extractUser kc)
      in call_onAuthStateChange True extractedUser
           (s\<lparr>isAuthenticated := True, user := extractedUser\<rparr>))"
| "run_handler AuthLogoutHandler k s =
     call_onAuthStateChange False None (s\<lparr>isAuthenticated := False, user := None\<rparr>)"

text \<open>
  The init effect. It returns the next state and the cleanup function React is to run
  when the scope ends; the effect of the source returns none on either path.
\<close>

definition initEffect ::
  "KeycloakAuthProviderProps \<Rightarrow> provider \<Rightarrow> provider \<times> (provider \<Rightarrow> provider) option" where
  "initEffect p s =
     (if initializingRef s \<or> initializedRef s then (s, None)
      else
        let k = length (instances s);
            kc = new_Keycloak\<lparr> onTokenExpired := Some TokenExpiredHandler,
                               onAuthSuccess := Some AuthSuccessHandler,
                               onAuthLogout := Some AuthLogoutHandler \<rparr>
        in (s\<lparr> initializingRef := True,
                instances := instances s @ [kc],
                calls := calls s @ [(k, Init (defaultInitOptions p))],
                pending := pending s @ [k] \<rparr>, None))"

text \<open>The effect that copies the callbacks of the props into the refs.\<close>

definition updateRefs :: "KeycloakAuthProviderProps \<Rightarrow> provider \<Rightarrow> provider" where
  "updateRefs p s =
     s\<lparr> onAuthStateChangeRef := onAuthStateChangeProp p,
        onTokenExpiredRef := onTokenExpiredProp p,
        onErrorRef := onErrorProp p \<rparr>"

text \<open>The \<open>then\<close> and \<open>catch\<close> callbacks of \<open>kc.init(...)\<close>, for the client at \<open>k\<close>.\<close>

definition init_then :: "nat \<Rightarrow> bool \<Rightarrow> provider \<Rightarrow> provider" where
  "init_then k authenticated s =
     (let extractedUser =
            (if authenticated
             then (case instance_at s k of None \<Rightarrow> None | Some kc \<Rightarrow> extractUser kc)
             else None)
      in call_onAuthStateChange authenticated extractedUser
           (s\<lparr> initializedRef := True,
                initializingRef := False,
                keycloak := Some k,
                isAuthenticated := authenticated,
                user := extractedUser,
                isLoading := False \<rparr>))"

definition init_catch :: "exn \<Rightarrow> provider \<Rightarrow> provider" where
  "init_catch e s =
     call_onError e
       (s\<lparr> initializingRef := False,
            notified := notified s @ [ConsoleError e],
            isLoading := False \<rparr>)"

text \<open>
  What can happen to a mounted provider. React runs the init effect at mount, again in
  strict mode, and when a dependency changes, after the cleanup of the previous run;
  it runs the cleanup when the scope ends. A client settles its \<open>init\<close> promise,
  invokes one of its handler slots, or changes its own tokens and roles.
\<close>

datatype event =
    Effect KeycloakAuthProviderProps
  | CallbacksChange KeycloakAuthProviderProps
  | Dispose
  | InitResolves nat bool
  | InitRejects nat exn
  | TokenExpires nat
  | AuthSucceeds nat
  | AuthLogsOut nat
  | ClientChanges nat Keycloak

definition run_cleanup :: "(provider \<Rightarrow> provider) option \<Rightarrow> provider \<Rightarrow> provider" where
  "run_cleanup c s = (case c of None \<Rightarrow> s | Some f \<Rightarrow> f s)"

text \<open>A client invokes the handler in one of its slots, when the slot holds one.\<close>

definition fire :: "(Keycloak \<Rightarrow> handler option) \<Rightarrow> nat \<Rightarrow> provider \<Rightarrow> provider" where
  "fire slot k s =
     (case instance_at s k of
        None \<Rightarrow> s
      | Some kc \<Rightarrow> (case slot kc of None \<Rightarrow> s | Some h \<Rightarrow> run_handler h k s))"

text \<open>The library changes the data of a client; the handler slots are the provider's.\<close>

definition client_changes :: "nat \<Rightarrow> Keycloak \<Rightarrow> provider \<Rightarrow> provider" where
  "client_changes k kc' s =
     (case instance_at s k of
        None \<Rightarrow> s
      | Some kc \<Rightarrow>
          s\<lparr>instances := (instances s)
               [k := kc'\<lparr> onTokenExpired := onTokenExpired kc,
                         onAuthSuccess := onAuthSuccess kc,
                         onAuthLogout := onAuthLogout kc \<rparr>]\<rparr>)"

text \<open>A mounted provider: its state and the cleanup React holds for the init effect.\<close>

type_synonym mounted = "provider \<times> (provider \<Rightarrow> provider) option"

fun step :: "event \<Rightarrow> mounted \<Rightarrow> mounted" where
  "step (Effect p) (s, c) = initEffect p (run_cleanup c s)"
| "step (CallbacksChange p) (s, c) = (updateRefs p s, c)"
| "step Dispose (s, c) = (run_cleanup c s, None)"
| "step (InitResolves k authenticated) (s, c) =
     (if k \<in> set (pending s)
      then (init_then k authenticated (s\<lparr>pending := removeAll k (pending s)\<rparr>), c)
      else (s, c))"
| "step (InitRejects k e) (s, c) =
     (if k \<in> set (pending s)
      then (init_catch e (s\<lparr>pending := removeAll k (pending s)\<rparr>), c)
      else (s, c))"
| "step (TokenExpires k) (s, c) = (fire onTokenExpired k s, c)"
| "step (AuthSucceeds k) (s, c) = (fire onAuthSuccess k s, c)"
| "step (AuthLogsOut k) (s, c) = (fire onAuthLogout k s, c)"
| "step (ClientChanges k kc') (s, c) = (client_changes k kc' s, c)"

definition run :: "event list \<Rightarrow> mounted \<Rightarrow> mounted" where
  "run evs m = fold step evs m"

definition mount :: "KeycloakAuthProviderProps \<Rightarrow> mounted" where
  "mount p = (initial p, None)"

text \<open>How often \<open>init\<close> was invoked, on whatever client.\<close>

fun is_Init :: "nat \<times> call \<Rightarrow> bool" where
  "is_Init (k, Init opts) = True"
| "is_Init (k, other) = False"

definition init_count :: "provider \<Rightarrow> nat" where
  "init_count s = length (filter is_Init (calls s))"

fun is_InitRejects :: "event \<Rightarrow> bool" where
  "is_InitRejects (InitRejects k e) = True"
| "is_InitRejects other = False"

fun is_InitResolves :: "event \<Rightarrow> bool" where
  "is_InitResolves (InitResolves k authenticated) = True"
| "is_InitResolves other = False"

fun is_Effect :: "event \<Rightarrow> bool" where
  "is_Effect (Effect p) = True"
| "is_Effect other = False"

subsection \<open>signIn, signOut, signUp, getToken\<close>

record location =
  href :: jsstring
  origin :: jsstring

record SignInOptions =
  redirectUri :: "jsstring option"

type_synonym SignOutOptions = SignInOptions
type_synonym SignUpOptions = SignInOptions

text \<open>\<open>options?.redirectUri || dflt\<close>: \<open>undefined\<close> and the empty string are falsy.\<close>

definition redirect_or :: "SignInOptions option \<Rightarrow> jsstring \<Rightarrow> jsstring" where
  "redirect_or options dflt =
     (case options of
        None \<Rightarrow> dflt
      | Some opts \<Rightarrow>
          (case redirectUri opts of None \<Rightarrow> dflt | Some u \<Rightarrow> if u = [] then dflt else u))"

text \<open>
  The three redirecting operations. \<open>outcome\<close> is how the client's promise settles:
  \<open>Some e\<close> when it rejects, and the awaiting operation rejects with it.
\<close>

definition signIn ::
  "location \<Rightarrow> exn option \<Rightarrow> SignInOptions option \<Rightarrow> provider \<Rightarrow> provider \<times> (exn + unit)" where
  "signIn window outcome options s =
     (case keycloak s of
        None \<Rightarrow> (s, Inr ())
      | Some k \<Rightarrow>
          (s\<lparr>calls := calls s @ [(k, Login (redirect_or options (href window)))]\<rparr>,
           case outcome of None \<Rightarrow> Inr () | Some e \<Rightarrow> Inl e))"

definition signOut ::
  "location \<Rightarrow> exn option \<Rightarrow> SignOutOptions option \<Rightarrow> provider \<Rightarrow> provider \<times> (exn + unit)" where
  "signOut window outcome options s =
     (case keycloak s of
        None \<Rightarrow> (s, Inr ())
      | Some k \<Rightarrow>
          (s\<lparr>calls := calls s @ [(k, Logout (redirect_or options (origin window)))]\<rparr>,
           case outcome of None \<Rightarrow> Inr () | Some e \<Rightarrow> Inl e))"

definition signUp ::
  "location \<Rightarrow> exn option \<Rightarrow> SignUpOptions option \<Rightarrow> provider \<Rightarrow> provider \<times> (exn + unit)" where
  "signUp window outcome options s =
     (case keycloak s of
        None \<Rightarrow> (s, Inr ())
      | Some k \<Rightarrow>
          (s\<lparr>calls := calls s @ [(k, Register (redirect_or options (href window)))]\<rparr>,
           case outcome of None \<Rightarrow> Inr () | Some e \<Rightarrow> Inl e))"

text \<open>
  \<open>getToken\<close>. \<open>refresh\<close> is how \<open>updateToken(30)\<close> settles: \<open>Inl e\<close> when it rejects,
  \<open>Inr kc'\<close> when it resolves, \<open>kc'\<close> being the client's data from then on. The result is
  \<open>Inr None\<close> for \<open>undefined\<close>.
\<close>

definition getToken_body ::
  "(exn + Keycloak) \<Rightarrow> nat \<Rightarrow> provider \<Rightarrow> provider \<times> (exn + jsstring option)" where
  "getToken_body refresh k s =
     (let s' = s\<lparr>calls := calls s @ [(k, UpdateToken 30)]\<rparr>
      in (case refresh of
            Inl e \<Rightarrow> (s', Inl e)
          | Inr kc' \<Rightarrow>
              (let s'' = client_changes k kc' s'
               in (s'', Inr (case instance_at s'' k of None \<Rightarrow> None | Some kc \<Rightarrow> token kc)))))"

definition getToken ::
  "(exn + Keycloak) \<Rightarrow> provider \<Rightarrow> provider \<times> (exn + jsstring option)" where
  "getToken refresh s =
     (case keycloak s of
        None \<Rightarrow> (s, Inr None)
      | Some k \<Rightarrow>
          (let (s', r) = getToken_body refresh k s
           in (s', try_catch r (\<lambda>e. Inr None))))"

section \<open>Session consumers (ControlComponents: Protect)\<close>

text \<open>
  What a consumer reads from the context. The client is passed by reference; a consumer
  only queries it, so the model passes the instance itself.
\<close>

record AuthContextValue = snapshot +
  idToken :: "jsstring option"
  accessToken :: "jsstring option"
  keycloak :: "Keycloak option"

text \<open>
  The \<open>fallback\<close> prop is \<open>undefined\<close>, a function of \<open>signIn\<close>, or a node. \<open>loading\<close>
  says whether a truthy \<open>loading\<close> node was given. \<open>roles\<close> and \<open>realmRoles\<close> are
  \<open>None\<close> when not given.
\<close>

datatype fallback = FallbackUndefined | FallbackFunction | FallbackNode

record ProtectProps =
  fallback :: fallback
  loading :: bool
  roles :: "jsstring list option"
  realmRoles :: "jsstring list option"

text \<open>What \<open>Protect\<close> returns: \<open>null\<close>, or a fragment of one of the nodes it was given.\<close>

datatype rendered = Null | Loading | FallbackResult | Fallback | Children

text \<open>\<open>xs.some(f)\<close>\<close>

definition some :: "('a \<Rightarrow> bool) \<Rightarrow> 'a list \<Rightarrow> bool" where
  "some f xs = list_ex f xs"

text \<open>
  \<open>Protect\<close> returns what it renders and how often it called \<open>signIn\<close> while rendering.
\<close>

definition Protect :: "ProtectProps \<Rightarrow> AuthContextValue \<Rightarrow> rendered \<times> nat" where
  "Protect props ctx =
     (if isLoading ctx then (if loading props then (Loading, 0) else (Null, 0))
      else if \<not> isAuthenticated ctx then
        (case fallback props of
           FallbackUndefined \<Rightarrow> (Null, 1)
         | FallbackFunction \<Rightarrow> (FallbackResult, 0)
         | FallbackNode \<Rightarrow> (Fallback, 0))
      else if (case (roles props, keycloak ctx) of
                 (Some rs, Some kc) \<Rightarrow> rs \<noteq> [] \<and> \<not> some (hasResourceRole kc) rs
               | _ \<Rightarrow> False)
           then (Null, 0)
      else if (case (realmRoles props, keycloak ctx) of
                 (Some rs, Some kc) \<Rightarrow> rs \<noteq> [] \<and> \<not> some (hasRealmRole kc) rs
               | _ \<Rightarrow> False)
           then (Null, 0)
      else (Children, 0))"

section \<open>Resolution of the user fields (UserButton, UserAvatar)\<close>

text \<open>\<open>a ?? b\<close>: \<open>b\<close> when \<open>a\<close> is \<open>undefined\<close> or \<open>null\<close>.\<close>

definition nullish :: "jsval \<Rightarrow> jsval \<Rightarrow> jsval" where
  "nullish a b = (case a of None \<Rightarrow> b | Some JNull \<Rightarrow> b | Some v \<Rightarrow> Some v)"

text \<open>
  \<open>tokenClaims?.k\<close> for the claim names these components read: the property of an
  object, \<open>undefined\<close> on \<open>null\<close> and on every other JSON value.
\<close>

definition claim :: "json \<Rightarrow> string \<Rightarrow> jsval" where
  "claim tokenClaims k = (case tokenClaims of JObj kvs \<Rightarrow> get kvs k | _ \<Rightarrow> None)"

text \<open>\<open>contextUser?.field\<close>\<close>

definition of_user :: "user option \<Rightarrow> (user \<Rightarrow> jsval) \<Rightarrow> jsval" where
  "of_user contextUser field = (case contextUser of None \<Rightarrow> None | Some u \<Rightarrow> field u)"

text \<open>A string prop as a value: \<open>undefined\<close> when not given.\<close>

definition given :: "jsstring option \<Rightarrow> jsval" where
  "given v = map_option JStr v"

record UserAvatarProps =
  token :: "jsstring option"
  imageUrl :: "jsstring option"
  firstName :: "jsstring option"
  lastName :: "jsstring option"
  name :: "jsstring option"

record UserButtonProps = UserAvatarProps +
  email :: "jsstring option"

text \<open>\<open>if (!token) return null; return decodeToken(token);\<close>\<close>

definition tokenClaims :: "platform \<Rightarrow> jsstring option \<Rightarrow> exn + json" where
  "tokenClaims env tok =
     (case tok of
        None \<Rightarrow> Inr JNull
      | Some t \<Rightarrow> if t = [] then Inr JNull else decodeToken env t)"

record resolved =
  resolvedImageUrl :: jsval
  resolvedFirstName :: jsval
  resolvedLastName :: jsval
  resolvedName :: jsval

record resolvedButton = resolved +
  resolvedEmail :: jsval
  resolvedUsername :: jsval

record resolvedAvatar = resolved +
  fallbackName :: jsval

text \<open>The \<open>resolved...\<close> constants of \<open>UserButton\<close>, given the decoded claims.\<close>

definition UserButton_resolve ::
  "'a UserButtonProps_scheme \<Rightarrow> json \<Rightarrow> user option \<Rightarrow> resolvedButton" where
  "UserButton_resolve props claims' contextUser =
     \<lparr> resolvedImageUrl =
         nullish (given (imageUrl props))
           (nullish (claim claims' ''picture'') (of_user contextUser user.imageUrl)),
       resolvedFirstName =
         nullish (given (firstName props))
           (nullish (claim claims' ''given_name'') (of_user contextUser user.firstName)),
       resolvedLastName =
         nullish (given (lastName props))
           (nullish (claim claims' ''family_name'') (of_user contextUser user.lastName)),
       resolvedName =
         nullish (given (name props))
           (nullish (claim claims' ''name'') (of_user contextUser user.name)),
       resolvedEmail =
         nullish (given (email props))
           (nullish (claim claims' ''email'') (of_user contextUser user.email)),
       resolvedUsername =
         nullish (claim claims' ''preferred_username'') (of_user contextUser username) \<rparr>"

text \<open>The \<open>resolved...\<close> constants of \<open>UserAvatar\<close>, given the decoded claims.\<close>

definition UserAvatar_resolve ::
  "'a UserAvatarProps_scheme \<Rightarrow> json \<Rightarrow> user option \<Rightarrow> resolvedAvatar" where
  "UserAvatar_resolve props claims' contextUser =
     \<lparr> resolvedImageUrl =
         nullish (given (imageUrl props))
           (nullish (claim claims' ''picture'') (of_user contextUser user.imageUrl)),
       resolvedFirstName =
         nullish (given (firstName props))
           (nullish (claim claims' ''given_name'') (of_user contextUser user.firstName)),
       resolvedLastName =
         nullish (given (lastName props))
           (nullish (claim claims' ''family_name'') (of_user contextUser user.lastName)),
       resolvedName =
         nullish (given (name props))
           (nullish (claim claims' ''name'') (of_user contextUser user.name)),
       fallbackName =
         nullish (claim claims' ''preferred_username'')
           (nullish (claim claims' ''email'')
              (nullish (of_user contextUser username) (of_user contextUser user.email))) \<rparr>"

text \<open>
  Both components decode the \<open>token\<close> prop first; an exception of \<open>decodeToken\<close> would
  leave the component.
\<close>

definition UserButton ::
  "platform \<Rightarrow> 'a UserButtonProps_scheme \<Rightarrow> user option \<Rightarrow> exn + resolvedButton" where
  "UserButton env props contextUser =
     (case tokenClaims env (token props) of
        Inl e \<Rightarrow> Inl e
      | Inr c \<Rightarrow> Inr (UserButton_resolve props c contextUser))"

definition UserAvatar ::
  "platform \<Rightarrow> 'a UserAvatarProps_scheme \<Rightarrow> user option \<Rightarrow> exn + resolvedAvatar" where
  "UserAvatar env props contextUser =
     (case tokenClaims env (token props) of
        Inl e \<Rightarrow> Inl e
      | Inr c \<Rightarrow> Inr (UserAvatar_resolve props c contextUser))"

text \<open>A value is present when it is neither \<open>undefined\<close> nor \<open>null\<close>.\<close>

definition present :: "jsval \<Rightarrow> bool" where
  "present v = (v \<noteq> None \<and> v \<noteq> Some JNull)"

section \<open>Reference notions the properties are stated with\<close>

text \<open>
  The base64 alphabet and the URL-safe alphabet of RFC 4648, as the character of a
  six-bit group.
\<close>

definition base64_char :: "nat \<Rightarrow> nat" where
  "base64_char i =
     (if i < 26 then 65 + i else if i < 52 then 97 + (i - 26)
      else if i < 62 then 48 + (i - 52) else if i = 62 then 43 else 47)"

definition base64url_char :: "nat \<Rightarrow> nat" where
  "base64url_char i =
     (if i < 26 then 65 + i else if i < 52 then 97 + (i - 26)
      else if i < 62 then 48 + (i - 52) else if i = 62 then 45 else 95)"

text \<open>The percent escape of a byte: \<open>%\<close> and two hexadecimal digits.\<close>

definition escape_byte :: "nat \<Rightarrow> jsstring" where
  "escape_byte b = [37, hexdigit (b div 16), hexdigit (b mod 16)]"

text \<open>
  The precedence the resolution is to follow: the explicit value when present, else the
  token claim when present, else the context value.
\<close>

definition first_present :: "jsval \<Rightarrow> jsval \<Rightarrow> jsval \<Rightarrow> jsval" where
  "first_present explicit tokenClaim contextValue' =
     (if present explicit then explicit
      else if present tokenClaim then tokenClaim
      else contextValue')"

text \<open>A client carries the three handlers of the provider.\<close>

definition wired :: "Keycloak \<Rightarrow> bool" where
  "wired kc =
     (onTokenExpired kc = Some TokenExpiredHandler \<and>
      onAuthSuccess kc = Some AuthSuccessHandler \<and>
      onAuthLogout kc = Some AuthLogoutHandler)"

text \<open>
  A role requirement is satisfied when it is not given, or empty, or names a role that is
  held.
\<close>

definition satisfied :: "(jsstring \<Rightarrow> bool) \<Rightarrow> jsstring list option \<Rightarrow> bool" where
  "satisfied held required =
     (case required of None \<Rightarrow> True | Some rs \<Rightarrow> rs = [] \<or> list_ex held rs)"

text \<open>
  What holds of every mounted provider: React holds no cleanup, every client carries the
  provider's handlers, and every address in use refers to a client.
\<close>

definition well_formed :: "mounted \<Rightarrow> bool" where
  "well_formed m =
     (snd m = None \<and>
      (\<forall>kc\<in>set (instances (fst m)). wired kc) \<and>
      (\<forall>k\<in>set (pending (fst m)). k < length (instances (fst m))) \<and>
      (\<forall>k. provider.keycloak (fst m) = Some k \<longrightarrow> k < length (instances (fst m))))"

text \<open>
  The guard flags after the events \<open>evs\<close>, none of them a failed attempt: before the
  first run of the effect nothing has happened; from then on \<open>init\<close> was invoked once
  and one of the flags is set.
\<close>

definition guarded :: "event list \<Rightarrow> provider \<Rightarrow> bool" where
  "guarded evs s =
     (if list_ex is_Effect evs
      then init_count s = 1 \<and> (initializingRef s \<or> initializedRef s)
      else init_count s = 0 \<and> \<not> initializingRef s \<and> \<not> initializedRef s \<and> pending s = [])"

text \<open>
  Every failed attempt leaves one \<open>console.error\<close>. The attempts are accounted for when
  at most one promise is pending, a pending promise means the in-progress flag is set
  and the completed flag is not, and \<open>init\<close> was invoked once per failed attempt and
  once more when a flag is set.
\<close>

fun is_ConsoleError :: "notification \<Rightarrow> bool" where
  "is_ConsoleError (ConsoleError e) = True"
| "is_ConsoleError other = False"

definition failed_count :: "provider \<Rightarrow> nat" where
  "failed_count s = length (filter is_ConsoleError (notified s))"

definition accounted :: "provider \<Rightarrow> bool" where
  "accounted s =
     (length (pending s) \<le> 1 \<and>
      (pending s \<noteq> [] \<longrightarrow> initializingRef s \<and> \<not> initializedRef s) \<and>
      init_count s = failed_count s + (if initializingRef s \<or> initializedRef s then 1 else 0))"

section \<open>Inputs of the worked examples\<close>

text \<open>
  A stand-in for the platform that agrees with it on the strings of the examples:
  \<open>eyJzdWIiOiI+w6k/In0\<close> is the base64 of the UTF-8 bytes of the JSON text of an
  object whose \<open>sub\<close> is the string of code units 62, 233, 63; \<open>ew\<close> is the base64 of
  an opening brace, which is not JSON; \<open>/w\<close> is the base64 of the byte 255, which is
  not UTF-8. On every other string the stand-in throws.
\<close>

definition example_json :: jsstring where
  "example_json = [123, 34, 115, 117, 98, 34, 58, 34, 62, 233, 63, 34, 125]"

definition example_utf8 :: jsstring where
  "example_utf8 = [123, 34, 115, 117, 98, 34, 58, 34, 62, 195, 169, 63, 34, 125]"

definition example_claims :: json where
  "example_claims = JObj [(str ''sub'', JStr [62, 233, 63])]"

definition example_platform :: platform where
  "example_platform =
     \<lparr> atob = (\<lambda>s. if s = str ''eyJzdWIiOiI+w6k/In0'' then Inr example_utf8
                   else if s = str ''ew'' then Inr [123]
                   else if s = str ''/w'' then Inr [255]
                   else Inl InvalidCharacterError),
       decodeURIComponent =
         (\<lambda>s. if s = str ''%7b%22%73%75%62%22%3a%22%3e%c3%a9%3f%22%7d'' then Inr example_json
              else if s = str ''%7b'' then Inr [123]
              else Inl URIError),
       JSON_parse = (\<lambda>s. if s = example_json then Inr example_claims else Inl SyntaxError) \<rparr>"

text \<open>The six-bit groups of \<open>example_utf8\<close>.\<close>

definition example_sextets :: "nat list" where
  "example_sextets = [30, 50, 9, 51, 29, 22, 8, 34, 14, 34, 8, 62, 48, 58, 36, 63, 8, 39, 52]"

definition example_props :: KeycloakAuthProviderProps where
  "example_props =
     \<lparr> url = str ''https://keycloak.example.com'', realm = str ''myrealm'',
       clientId = str ''my-app'', initOptions = None,
       onAuthStateChangeProp = Some 1, onTokenExpiredProp = Some 2, onErrorProp = Some 3 \<rparr>"

definition example_window :: location where
  "example_window = \<lparr> href = str ''https://app.example.com/page'',
                       origin = str ''https://app.example.com'' \<rparr>"

text \<open>The parsed token of the specification's example: \<open>sub\<close>, \<open>given_name\<close>, \<open>family_name\<close>.\<close>

definition example_token :: "(jsstring \<times> json) list" where
  "example_token =
     [(str ''sub'', JStr (str ''u1'')), (str ''given_name'', JStr (str ''A'')),
      (str ''family_name'', JStr (str ''B''))]"

definition example_client :: Keycloak where
  "example_client =
     new_Keycloak\<lparr> idTokenParsed := Some example_token,
                    Keycloak.token := Some (str ''access''),
                    hasResourceRole := (\<lambda>role. role = str ''admin'') \<rparr>"

text \<open>
  Props that give the image URL only, decoded claims with a given name and a \<open>null\<close>
  family name, and a user of the context with every name field.
\<close>

definition example_button_props :: UserButtonProps where
  "example_button_props =
     \<lparr> token = None, imageUrl = Some (str ''/me.png''), firstName = None, lastName = None,
       name = None, email = None \<rparr>"

definition example_decoded :: json where
  "example_decoded = JObj [(str ''given_name'', JStr (str ''A'')), (str ''family_name'', JNull)]"

definition example_user :: user where
  "example_user =
     \<lparr> id' = Some (JStr (str ''u1'')), email = Some (JStr (str ''c@example.com'')),
       emailVerified = None, name = None,
       firstName = Some (JStr (str ''C'')), lastName = Some (JStr (str ''B'')),
       username = None, imageUrl = Some (JStr (str ''/ctx.png'')),
       claims = [] \<rparr>"

text \<open>
  A session: the effect runs twice (strict mode), the client obtains its tokens, and
  \<open>init\<close> resolves with \<open>true\<close>.
\<close>

definition example_session :: "event list" where
  "example_session =
     [Effect example_props, Effect example_props, ClientChanges 0 example_client,
      InitResolves 0 True]"

definition example_context :: AuthContextValue where
  "example_context =
     \<lparr> isLoading = False, isAuthenticated = True, user = extractUser example_client,
       idToken = None, accessToken = Some (str ''access''), keycloak = Some example_client \<rparr>"

section \<open>Properties of the claims extraction\<close>

lemma str_eq_iff: "str a = str b \<longleftrightarrow> a = b"
  unfolding str_def by (simp add: inj_map_eq_map inj_on_def)

lemma split_not_Nil: "split sep s \<noteq> []"
  by (induction s) (auto split: list.splits)

lemma split_without_sep: "sep \<notin> set s \<Longrightarrow> split sep s = [s]"
  by (induction s) (auto split: list.splits)

lemma split_at_first_sep: "sep \<notin> set a \<Longrightarrow> split sep (a @ sep # b) = a # split sep b"
  by (induction a) (auto split: list.splits simp: split_not_Nil)

lemma split_three:
  assumes "sep \<notin> set a" and "sep \<notin> set b" and "sep \<notin> set c"
  shows "split sep (a @ [sep] @ b @ [sep] @ c) = [a, b, c]"
  using assms by (simp add: split_at_first_sep split_without_sep)

lemma base64url_char_not_dot: "base64url_char i \<noteq> 46"
  unfolding base64url_char_def by (simp split: if_splits) arith

text \<open>The two replacements turn the URL-safe alphabet into the base64 alphabet.\<close>

lemma base64_of_url_char: "base64_of (map base64url_char xs) = map base64_char xs"
  by (induction xs) (auto simp: base64_of_def replace_def base64url_char_def base64_char_def)

lemma base64_of_padding: "set padding \<subseteq> {61} \<Longrightarrow> base64_of padding = padding"
  by (induction padding) (auto simp: base64_of_def replace_def)

lemma base64_of_url_char_padded:
  "set padding \<subseteq> {61} \<Longrightarrow>
   base64_of (map base64url_char xs @ padding) = map base64_char xs @ padding"
  using base64_of_url_char [of xs] base64_of_padding [of padding]
  by (simp add: base64_of_def replace_def)

lemma toString16_small: "n < 16 \<Longrightarrow> toString16 n = [hexdigit n]"
  by (simp add: toString16.simps)

lemma toString16_byte:
  "16 \<le> n \<Longrightarrow> n < 256 \<Longrightarrow> toString16 n = [hexdigit (n div 16), hexdigit (n mod 16)]"
  by (subst toString16.simps) (simp add: toString16_small less_mult_imp_div_less)

text \<open>Padding with \<open>00\<close> and keeping the last two digits gives the escape of a byte.\<close>

lemma percent_byte: "b < 256 \<Longrightarrow> percent b = escape_byte b"
proof (cases "b < 16")
  case True
  then show ?thesis
    by (simp add: percent_def escape_byte_def toString16_small slice_last_def str_def hexdigit_def)
next
  case False
  assume "b < 256"
  with False show ?thesis
    by (simp add: percent_def escape_byte_def toString16_byte slice_last_def str_def)
qed

lemma percent_all_bytes:
  "\<forall>b\<in>set bs. b < 256 \<Longrightarrow> percent_all bs = concat (map escape_byte bs)"
  by (induction bs) (simp_all add: percent_all_def percent_byte)

lemma decodeToken_returns: "\<exists>v. decodeToken env t = Inr v"
  by (simp add: decodeToken_def try_catch_def split: sum.splits)

text \<open>
  C4. For every input string and whatever the platform does, \<open>decodeToken\<close> returns a
  value and throws nothing; the value is \<open>null\<close> when the string does not split at the
  dots into exactly three segments, when \<open>atob\<close> throws on the middle segment, when
  \<open>decodeURIComponent\<close> throws on the escaped bytes (they are not UTF-8), and when
  \<open>JSON.parse\<close> throws on the text.
\<close>

theorem decodeToken_fails_closed:
  "(\<exists>v. decodeToken env t = Inr v) \<and>
   (length (split 46 t) \<noteq> 3 \<longrightarrow> decodeToken env t = Inr JNull) \<and>
   (isl (atob env (base64_of (split 46 t ! 1))) \<longrightarrow> decodeToken env t = Inr JNull) \<and>
   (\<forall>bin. atob env (base64_of (split 46 t ! 1)) = Inr bin \<longrightarrow>
      isl (decodeURIComponent env (percent_all bin)) \<longrightarrow> decodeToken env t = Inr JNull) \<and>
   (\<forall>bin text. atob env (base64_of (split 46 t ! 1)) = Inr bin \<longrightarrow>
      decodeURIComponent env (percent_all bin) = Inr text \<longrightarrow>
      isl (JSON_parse env text) \<longrightarrow> decodeToken env t = Inr JNull)"
  by (auto simp: decodeToken_def decodeToken_body_def try_catch_def Let_def isl_def
           split: sum.splits)

lemma example_two_segments: "split 46 (str ''only.two'') = [str ''only'', str ''two'']"
  by (simp add: str_def)

lemma example_bad_base64: "split 46 (str ''h.!.s'') = [str ''h'', str ''!'', str ''s'']"
  by (simp add: str_def)

lemma example_bad_utf8: "split 46 (str ''h._w.s'') = [str ''h'', str ''_w'', str ''s'']"
  by (simp add: str_def)

lemma example_bad_json: "split 46 (str ''h.ew.s'') = [str ''h'', str ''ew'', str ''s'']"
  by (simp add: str_def)

text \<open>
  Four tokens, one for each way to fail: two segments; a middle segment outside the
  alphabet; the byte 255; an opening brace.
\<close>

theorem decodeToken_fails_closed_witness:
  "length (split 46 (str ''only.two'')) \<noteq> 3 \<and>
   decodeToken example_platform (str ''only.two'') = Inr JNull \<and>
   isl (atob example_platform (base64_of (split 46 (str ''h.!.s'') ! 1))) \<and>
   decodeToken example_platform (str ''h.!.s'') = Inr JNull \<and>
   atob example_platform (base64_of (split 46 (str ''h._w.s'') ! 1)) = Inr [255] \<and>
   isl (decodeURIComponent example_platform (percent_all [255])) \<and>
   decodeToken example_platform (str ''h._w.s'') = Inr JNull \<and>
   atob example_platform (base64_of (split 46 (str ''h.ew.s'') ! 1)) = Inr [123] \<and>
   decodeURIComponent example_platform (percent_all [123]) = Inr [123] \<and>
   isl (JSON_parse example_platform [123]) \<and>
   decodeToken example_platform (str ''h.ew.s'') = Inr JNull"
proof -
  have a: "length (split 46 (str ''only.two'')) \<noteq> 3"
    by (simp add: example_two_segments)
  have b: "isl (atob example_platform (base64_of (split 46 (str ''h.!.s'') ! 1)))"
    by (simp add: example_bad_base64 example_platform_def base64_of_def replace_def str_def)
  have c1: "atob example_platform (base64_of (split 46 (str ''h._w.s'') ! 1)) = Inr [255]"
    by (simp add: example_bad_utf8 example_platform_def base64_of_def replace_def str_def)
  have c2: "isl (decodeURIComponent example_platform (percent_all [255]))"
    by (simp add: example_platform_def percent_all_def percent_def slice_last_def
          toString16.simps hexdigit_def str_def)
  have d1: "atob example_platform (base64_of (split 46 (str ''h.ew.s'') ! 1)) = Inr [123]"
    by (simp add: example_bad_json example_platform_def base64_of_def replace_def str_def)
  have d2: "decodeURIComponent example_platform (percent_all [123]) = Inr [123]"
    by (simp add: example_platform_def percent_all_def percent_def slice_last_def
          toString16.simps hexdigit_def str_def)
  have d3: "isl (JSON_parse example_platform [123])"
    by (simp add: example_platform_def example_json_def)
  from a b c1 c2 d1 d2 d3
    decodeToken_fails_closed [of example_platform "str ''only.two''"]
    decodeToken_fails_closed [of example_platform "str ''h.!.s''"]
    decodeToken_fails_closed [of example_platform "str ''h._w.s''"]
    decodeToken_fails_closed [of example_platform "str ''h.ew.s''"]
  show ?thesis by blast
qed

text \<open>
  C5. Let \<open>claims'\<close> be a claims object, \<open>text\<close> its JSON text, \<open>bytes\<close> the UTF-8
  bytes of the text and \<open>sextets\<close> their six-bit groups, the encoders being the
  platform's: \<open>JSON.parse\<close> reads the text back as the object, \<open>decodeURIComponent\<close>
  reads the percent escapes of the bytes back as the text, and \<open>atob\<close> reads the base64
  characters of the groups (with the padding, if any) back as the bytes. Then
  \<open>decodeToken\<close> returns \<open>claims'\<close> for the token whose middle segment is the
  base64url characters of the groups (with the same padding), between a header and a
  signature without dots.
\<close>

theorem decodeToken_roundtrip:
  assumes "46 \<notin> set header" and "46 \<notin> set signature"
    and "set padding \<subseteq> {61}"
    and "\<forall>b\<in>set bytes. b < 256"
    and "atob env (map base64_char sextets @ padding) = Inr bytes"
    and "decodeURIComponent env (concat (map escape_byte bytes)) = Inr text"
    and "JSON_parse env text = Inr claims'"
  shows "decodeToken env
           (header @ [46] @ (map base64url_char sextets @ padding) @ [46] @ signature)
           = Inr claims'"
proof -
  from assms(3) have "46 \<notin> set (map base64url_char sextets @ padding)"
    by (auto simp: base64url_char_not_dot)
  from assms(1) this assms(2)
  have parts:
    "split 46 (header @ [46] @ (map base64url_char sextets @ padding) @ [46] @ signature)
       = [header, map base64url_char sextets @ padding, signature]"
    by (rule split_three)
  from assms(3) have "base64_of (map base64url_char sextets @ padding)
                        = map base64_char sextets @ padding"
    by (simp add: base64_of_url_char_padded)
  with assms(4-7) show ?thesis
    unfolding decodeToken_def decodeToken_body_def try_catch_def Let_def parts
    by (simp add: percent_all_bytes)
qed

lemma example_base64: "map base64_char example_sextets = str ''eyJzdWIiOiI+w6k/In0''"
  by (simp add: example_sextets_def base64_char_def str_def)

lemma example_base64url: "map base64url_char example_sextets = str ''eyJzdWIiOiI-w6k_In0''"
  by (simp add: example_sextets_def base64url_char_def str_def)

lemma example_escapes:
  "concat (map escape_byte example_utf8) = str ''%7b%22%73%75%62%22%3a%22%3e%c3%a9%3f%22%7d''"
  by (simp add: example_utf8_def escape_byte_def hexdigit_def str_def)

text \<open>A token whose payload has a character outside ASCII and both URL-safe characters.\<close>

theorem decodeToken_roundtrip_witness:
  "46 \<notin> set (str ''hdr'') \<and> 46 \<notin> set (str ''sig'') \<and>
   atob example_platform (map base64_char example_sextets) = Inr example_utf8 \<and>
   decodeURIComponent example_platform (concat (map escape_byte example_utf8))
     = Inr example_json \<and>
   JSON_parse example_platform example_json = Inr example_claims \<and>
   decodeToken example_platform (str ''hdr.eyJzdWIiOiI-w6k_In0.sig'') = Inr example_claims"
proof -
  have h: "46 \<notin> set (str ''hdr'')" "46 \<notin> set (str ''sig'')"
    by (simp_all add: str_def)
  have p: "set ([] :: jsstring) \<subseteq> {61}"
    by simp
  have b: "\<forall>b\<in>set example_utf8. b < 256"
    by (simp add: example_utf8_def)
  have a: "atob example_platform (map base64_char example_sextets @ []) = Inr example_utf8"
    by (simp add: example_base64 example_platform_def)
  have d: "decodeURIComponent example_platform (concat (map escape_byte example_utf8))
             = Inr example_json"
    by (simp add: example_escapes example_platform_def)
  have j: "JSON_parse example_platform example_json = Inr example_claims"
    by (simp add: example_platform_def)
  have t: "str ''hdr'' @ [46] @ (map base64url_char example_sextets @ []) @ [46] @ str ''sig''
             = str ''hdr.eyJzdWIiOiI-w6k_In0.sig''"
    by (simp add: example_base64url) (simp add: str_def)
  from decodeToken_roundtrip [OF h p b a d j, unfolded t] h a d j show ?thesis
    by simp
qed

section \<open>Properties of the User projection\<close>

text \<open>
  C9. For every parsed token \<open>t\<close> the client holds (the parsed ID token, else the parsed
  access token), the projection is a user whose \<open>id\<close> is the claim \<open>sub\<close>, and likewise
  \<open>email\<close>, \<open>email_verified\<close>, \<open>name\<close>, \<open>given_name\<close>, \<open>family_name\<close>,
  \<open>preferred_username\<close> and \<open>picture\<close> for the other fields; \<open>claims\<close> is the parsed
  token itself, so every remaining claim is kept as it is.
\<close>

theorem extractUser_projection:
  assumes "idTokenParsed kc = Some t \<or> (idTokenParsed kc = None \<and> tokenParsed kc = Some t)"
  shows "\<exists>u. extractUser kc = Some u \<and>
           id' u = map_of t (str ''sub'') \<and>
           user.email u = map_of t (str ''email'') \<and>
           emailVerified u = map_of t (str ''email_verified'') \<and>
           user.name u = map_of t (str ''name'') \<and>
           user.firstName u = map_of t (str ''given_name'') \<and>
           user.lastName u = map_of t (str ''family_name'') \<and>
           username u = map_of t (str ''preferred_username'') \<and>
           user.imageUrl u = map_of t (str ''picture'') \<and>
           claims u = t"
  using assms by (auto simp: extractUser_def or_else_def get_def)

text \<open>The token of the specification's example.\<close>

theorem extractUser_projection_witness:
  "idTokenParsed example_client = Some example_token \<and>
   (\<exists>u. extractUser example_client = Some u \<and>
      id' u = Some (JStr (str ''u1'')) \<and>
      user.firstName u = Some (JStr (str ''A'')) \<and>
      user.lastName u = Some (JStr (str ''B'')) \<and>
      user.email u = None \<and>
      claims u = example_token)"
proof -
  have a: "idTokenParsed example_client = Some example_token"
    by (simp add: example_client_def)
  have b: "map_of example_token (str ''sub'') = Some (JStr (str ''u1''))"
      "map_of example_token (str ''given_name'') = Some (JStr (str ''A''))"
      "map_of example_token (str ''family_name'') = Some (JStr (str ''B''))"
      "map_of example_token (str ''email'') = None"
    by (simp_all add: example_token_def str_eq_iff)
  from extractUser_projection [of example_client example_token] a b
  show ?thesis by auto
qed

section \<open>Properties of the provider\<close>

lemma run_Nil: "run [] m = m"
  by (simp add: run_def)

lemma run_snoc: "run (evs @ [e]) m = step e (run evs m)"
  by (simp add: run_def)

lemma initEffect_no_cleanup: "snd (initEffect p s) = None"
  by (simp add: initEffect_def Let_def)

lemma step_no_cleanup: "snd m = None \<Longrightarrow> snd (step e m) = None"
  by (cases m; cases e) (simp_all add: initEffect_no_cleanup)

lemma run_no_cleanup: "snd (run evs (mount p)) = None"
  by (induction evs rule: rev_induct) (simp_all add: run_Nil run_snoc mount_def step_no_cleanup)

subsection \<open>What each piece leaves alone\<close>

lemma call_onAuthStateChange_fields:
  "instances (call_onAuthStateChange b u s) = instances s"
  "calls (call_onAuthStateChange b u s) = calls s"
  "pending (call_onAuthStateChange b u s) = pending s"
  "initializingRef (call_onAuthStateChange b u s) = initializingRef s"
  "initializedRef (call_onAuthStateChange b u s) = initializedRef s"
  "provider.keycloak (call_onAuthStateChange b u s) = provider.keycloak s"
  by (simp_all add: call_onAuthStateChange_def split: option.splits)

lemma call_onTokenExpired_fields:
  "instances (call_onTokenExpired s) = instances s"
  "calls (call_onTokenExpired s) = calls s"
  "pending (call_onTokenExpired s) = pending s"
  "initializingRef (call_onTokenExpired s) = initializingRef s"
  "initializedRef (call_onTokenExpired s) = initializedRef s"
  "provider.keycloak (call_onTokenExpired s) = provider.keycloak s"
  by (simp_all add: call_onTokenExpired_def split: option.splits)

lemma call_onError_fields:
  "instances (call_onError e s) = instances s"
  "calls (call_onError e s) = calls s"
  "pending (call_onError e s) = pending s"
  "initializingRef (call_onError e s) = initializingRef s"
  "initializedRef (call_onError e s) = initializedRef s"
  "provider.keycloak (call_onError e s) = provider.keycloak s"
  by (simp_all add: call_onError_def split: option.splits)

lemmas call_fields =
  call_onAuthStateChange_fields call_onTokenExpired_fields call_onError_fields

lemma run_handler_fields:
  "instances (run_handler h k s) = instances s"
  "calls (run_handler h k s) = calls s"
  "pending (run_handler h k s) = pending s"
  "initializingRef (run_handler h k s) = initializingRef s"
  "initializedRef (run_handler h k s) = initializedRef s"
  "provider.keycloak (run_handler h k s) = provider.keycloak s"
  by (cases h; simp add: call_fields Let_def)+

lemma fire_fields:
  "instances (fire slot k s) = instances s"
  "calls (fire slot k s) = calls s"
  "pending (fire slot k s) = pending s"
  "initializingRef (fire slot k s) = initializingRef s"
  "initializedRef (fire slot k s) = initializedRef s"
  "provider.keycloak (fire slot k s) = provider.keycloak s"
  by (simp_all add: fire_def run_handler_fields split: option.splits)

lemma client_changes_fields:
  "length (instances (client_changes k kc' s)) = length (instances s)"
  "calls (client_changes k kc' s) = calls s"
  "pending (client_changes k kc' s) = pending s"
  "initializingRef (client_changes k kc' s) = initializingRef s"
  "initializedRef (client_changes k kc' s) = initializedRef s"
  "provider.keycloak (client_changes k kc' s) = provider.keycloak s"
  by (simp_all add: client_changes_def split: option.splits)

lemma updateRefs_fields:
  "initializingRef (updateRefs p s) = initializingRef s"
  "initializedRef (updateRefs p s) = initializedRef s"
  "pending (updateRefs p s) = pending s"
  "instances (updateRefs p s) = instances s"
  "provider.keycloak (updateRefs p s) = provider.keycloak s"
  by (simp_all add: updateRefs_def)

text \<open>A change of a client's data keeps the handlers of every client.\<close>

lemma client_changes_wired:
  assumes a: "\<forall>kc\<in>set (instances s). wired kc"
  shows "\<forall>kc\<in>set (instances (client_changes k kc' s)). wired kc"
proof (cases "instance_at s k")
  case None
  with a show ?thesis by (simp add: client_changes_def)
next
  case (Some kc)
  then have "k < length (instances s)" and "kc = instances s ! k"
    by (auto simp: instance_at_def split: if_splits)
  then have "wired kc" using a by simp
  then have "wired (kc'\<lparr> onTokenExpired := onTokenExpired kc,
                         onAuthSuccess := onAuthSuccess kc,
                         onAuthLogout := onAuthLogout kc \<rparr>)"
    by (simp add: wired_def)
  with a Some show ?thesis
    by (auto simp: client_changes_def dest!: set_update_subset_insert [THEN subsetD])
qed

subsection \<open>Every mounted provider is well formed\<close>

lemma well_formed_mount: "well_formed (mount p)"
  by (simp add: well_formed_def mount_def initial_def)

lemma well_formed_step:
  assumes wf: "well_formed m"
  shows "well_formed (step e m)"
proof (cases m)
  case (Pair s c)
  with wf have c: "c = None" by (simp add: well_formed_def)
  show ?thesis
  proof (cases e)
    case (Effect p)
    with wf Pair c show ?thesis
      by (auto simp: well_formed_def initEffect_def Let_def run_cleanup_def wired_def
            new_Keycloak_def less_Suc_eq)
  next
    case (ClientChanges k kc')
    with wf Pair c client_changes_wired [of s k kc'] show ?thesis
      by (auto simp: well_formed_def client_changes_fields)
  next
    case (InitResolves k a)
    with wf Pair c show ?thesis
      by (auto simp: well_formed_def init_then_def Let_def call_fields)
  next
    case (InitRejects k x)
    with wf Pair c show ?thesis
      by (auto simp: well_formed_def init_catch_def Let_def call_fields)
  qed (use wf Pair c in
        \<open>simp_all add: well_formed_def fire_fields updateRefs_def run_cleanup_def\<close>)
qed

lemma well_formed_run: "well_formed (run evs (mount p))"
  by (induction evs rule: rev_induct)
     (simp_all add: run_Nil run_snoc well_formed_mount well_formed_step)

lemma reachable_instance_wired:
  assumes "k < length (instances (fst (run evs (mount p))))"
  shows "instance_at (fst (run evs (mount p))) k
           = Some (instances (fst (run evs (mount p))) ! k)"
    and "wired (instances (fst (run evs (mount p))) ! k)"
  using assms well_formed_run [of evs p] by (simp_all add: instance_at_def well_formed_def)

subsection \<open>Initialization\<close>

lemma init_count_simps:
  "init_count (call_onAuthStateChange b u s) = init_count s"
  "init_count (call_onError x s) = init_count s"
  "init_count (fire slot k s) = init_count s"
  "init_count (client_changes k kc' s) = init_count s"
  "init_count (updateRefs p s) = init_count s"
  "init_count (s\<lparr>pending := ks\<rparr>) = init_count s"
  by (simp_all add: init_count_def call_fields fire_fields client_changes_fields updateRefs_def)

lemma initEffect_fields:
  "init_count (fst (initEffect p s)) =
     (if initializingRef s \<or> initializedRef s then init_count s else Suc (init_count s))"
  "initializingRef (fst (initEffect p s)) = (initializingRef s \<or> \<not> initializedRef s)"
  "initializedRef (fst (initEffect p s)) = initializedRef s"
  by (auto simp: initEffect_def Let_def init_count_def)

lemma init_then_fields:
  "init_count (init_then k a s) = init_count s"
  "initializedRef (init_then k a s)"
  by (simp_all add: init_then_def Let_def init_count_def call_fields)

lemma guarded_mount: "guarded [] (initial p)"
  by (simp add: guarded_def initial_def init_count_def)

lemma guarded_step:
  assumes "guarded evs s" and "\<not> is_InitRejects e"
  shows "guarded (evs @ [e]) (fst (step e (s, None)))"
proof (cases e)
  case (Effect p)
  with assms show ?thesis
    by (auto simp: guarded_def initEffect_fields run_cleanup_def split: if_splits)
next
  case (InitResolves k a)
  with assms show ?thesis
    by (auto simp: guarded_def init_then_fields init_count_simps split: if_splits)
next
  case (InitRejects k x)
  with assms show ?thesis by simp
qed (use assms in \<open>auto simp: guarded_def fire_fields client_changes_fields
       init_count_simps updateRefs_fields run_cleanup_def split: if_splits\<close>)

lemma guarded_run:
  "\<not> list_ex is_InitRejects evs \<Longrightarrow> guarded evs (fst (run evs (mount p)))"
proof (induction evs rule: rev_induct)
  case Nil
  show ?case by (simp add: run_Nil mount_def guarded_mount)
next
  case (snoc e evs)
  then have g: "guarded evs (fst (run evs (mount p)))" and e: "\<not> is_InitRejects e"
    by simp_all
  have "run evs (mount p) = (fst (run evs (mount p)), None)"
    using run_no_cleanup [of evs p] by (simp add: prod_eq_iff)
  with guarded_step [OF g e] show ?case
    by (simp add: run_snoc)
qed

lemma failed_count_simps:
  "failed_count (call_onAuthStateChange b u s) = failed_count s"
  "failed_count (call_onTokenExpired s) = failed_count s"
  "failed_count (call_onError x s) = failed_count s"
  "failed_count (client_changes k kc' s) = failed_count s"
  "failed_count (updateRefs p s) = failed_count s"
  "failed_count (s\<lparr>pending := ks\<rparr>) = failed_count s"
  by (simp_all add: failed_count_def call_onAuthStateChange_def call_onTokenExpired_def
        call_onError_def client_changes_def updateRefs_def split: option.splits)

lemma failed_count_run_handler: "failed_count (run_handler h k s) = failed_count s"
  by (cases h) (simp_all add: Let_def failed_count_simps, simp_all add: failed_count_def)

lemma failed_count_fire: "failed_count (fire slot k s) = failed_count s"
  by (simp add: fire_def failed_count_run_handler split: option.splits)

lemma failed_count_initEffect: "failed_count (fst (initEffect p s)) = failed_count s"
  by (simp add: initEffect_def Let_def failed_count_def)

lemma failed_count_init_then: "failed_count (init_then k a s) = failed_count s"
  by (simp add: init_then_def Let_def failed_count_simps) (simp add: failed_count_def)

lemma failed_count_init_catch: "failed_count (init_catch e s) = Suc (failed_count s)"
  by (simp add: init_catch_def failed_count_simps) (simp add: failed_count_def)

lemma initEffect_pending:
  "pending (fst (initEffect p s)) =
     (if initializingRef s \<or> initializedRef s then pending s
      else pending s @ [length (instances s)])"
  by (simp add: initEffect_def Let_def)

lemma init_then_flags:
  "initializingRef (init_then k a s) = False"
  "pending (init_then k a s) = pending s"
  by (simp_all add: init_then_def Let_def call_fields)

lemma init_catch_fields:
  "initializingRef (init_catch e s) = False"
  "initializedRef (init_catch e s) = initializedRef s"
  "pending (init_catch e s) = pending s"
  "init_count (init_catch e s) = init_count s"
  by (simp_all add: init_catch_def call_fields init_count_simps) (simp add: init_count_def)

lemma removeAll_single: "length ks \<le> 1 \<Longrightarrow> k \<in> set ks \<Longrightarrow> removeAll k ks = []"
  by (cases ks) auto

lemma accounted_step:
  assumes "accounted s"
  shows "accounted (fst (step e (s, None)))"
proof (cases e)
  case (Effect p)
  with assms show ?thesis
    by (auto simp: accounted_def initEffect_fields failed_count_initEffect run_cleanup_def
          initEffect_pending split: if_splits)
next
  case (InitResolves k a)
  with assms show ?thesis
    by (auto simp: accounted_def init_then_fields init_then_flags init_count_simps
          failed_count_init_then failed_count_simps removeAll_single split: if_splits)
next
  case (InitRejects k x)
  with assms show ?thesis
    by (auto simp: accounted_def init_catch_fields init_count_simps
          failed_count_init_catch failed_count_simps removeAll_single split: if_splits)
qed (use assms in \<open>auto simp: accounted_def fire_fields client_changes_fields
       init_count_simps updateRefs_fields run_cleanup_def failed_count_simps failed_count_fire
       split: if_splits\<close>)

lemma accounted_run: "accounted (fst (run evs (mount p)))"
proof (induction evs rule: rev_induct)
  case Nil
  show ?case
    by (simp add: run_Nil mount_def accounted_def initial_def init_count_def failed_count_def)
next
  case (snoc e evs)
  have "run evs (mount p) = (fst (run evs (mount p)), None)"
    using run_no_cleanup [of evs p] by (simp add: prod_eq_iff)
  with accounted_step [OF snoc.IH, of e] show ?case
    by (simp add: run_snoc)
qed

text \<open>
  C1, as amended. For every sequence of events of a mounted provider in which no
  initialization attempt fails and the setup logic runs at least once (however often,
  also after an attempt has completed), the client's \<open>init\<close> is invoked exactly once.
  In general \<open>init\<close> is invoked once for every failed attempt, and once more when an
  attempt is in progress or has completed: the two flags guard a running and a
  completed attempt, not a failed one.
\<close>

theorem init_once_while_no_attempt_failed:
  "(\<not> list_ex is_InitRejects evs \<longrightarrow> list_ex is_Effect evs \<longrightarrow>
      init_count (fst (run evs (mount p))) = 1) \<and>
   init_count (fst (run evs (mount p))) =
     failed_count (fst (run evs (mount p))) +
     (if initializingRef (fst (run evs (mount p))) \<or> initializedRef (fst (run evs (mount p)))
      then 1 else 0)"
proof
  show "\<not> list_ex is_InitRejects evs \<longrightarrow> list_ex is_Effect evs \<longrightarrow>
          init_count (fst (run evs (mount p))) = 1"
    using guarded_run [of evs p] by (simp add: guarded_def)
  show "init_count (fst (run evs (mount p))) =
          failed_count (fst (run evs (mount p))) +
          (if initializingRef (fst (run evs (mount p))) \<or> initializedRef (fst (run evs (mount p)))
           then 1 else 0)"
    using accounted_run [of evs p] by (simp add: accounted_def)
qed

text \<open>
  The setup logic runs three times, the scope ends in between, and the attempt completes
  before the last run.
\<close>

theorem init_once_while_no_attempt_failed_witness:
  "\<not> list_ex is_InitRejects [Effect example_props, Dispose, Effect example_props,
                               InitResolves 0 True, Effect example_props] \<and>
   list_ex is_Effect [Effect example_props, Dispose, Effect example_props,
                      InitResolves 0 True, Effect example_props] \<and>
   init_count (fst (run [Effect example_props, Dispose, Effect example_props,
                         InitResolves 0 True, Effect example_props] (mount example_props))) = 1"
  using init_once_while_no_attempt_failed
          [of "[Effect example_props, Dispose, Effect example_props,
                InitResolves 0 True, Effect example_props]" example_props]
  by simp

text \<open>
  Stated without the amendment the property fails: the \<open>catch\<close> callback clears the in-progress flag and leaves the
  completed flag clear, so the run of the setup logic after a failed attempt invokes
  \<open>init\<close> a second time.
\<close>

theorem init_again_after_failure:
  "init_count (fst (run [Effect example_props, InitRejects 0 (Rejection (str ''unreachable'')),
                         Effect example_props] (mount example_props))) = 2"
  by (simp add: run_def mount_def initial_def initEffect_def run_cleanup_def Let_def
        init_catch_def call_onError_def init_count_def example_props_def)

subsection \<open>Disposal\<close>

lemmas example_defs =
  example_session_def run_def mount_def initial_def initEffect_def run_cleanup_def Let_def
  init_then_def init_catch_def call_onAuthStateChange_def call_onTokenExpired_def
  call_onError_def fire_def client_changes_def
  instance_at_def new_Keycloak_def extractUser_def or_else_def get_def example_props_def
  example_client_def example_token_def defaultInitOptions_def spread_def

text \<open>
  C2, as amended. When the scope of a mounted provider ends, nothing is detached: the
  init effect returns no cleanup, so disposal leaves the provider and its clients as they
  are, and every client keeps the three handlers the provider registered on it.
\<close>

theorem disposal_detaches_nothing:
  "step Dispose (run evs (mount p)) = run evs (mount p) \<and>
   (\<forall>kc\<in>set (instances (fst (step Dispose (run evs (mount p))))). wired kc)"
proof -
  have "snd (run evs (mount p)) = None" by (rule run_no_cleanup)
  then have eq: "step Dispose (run evs (mount p)) = run evs (mount p)"
    by (cases "run evs (mount p)") (simp add: run_cleanup_def)
  from well_formed_run [of evs p] show ?thesis
    unfolding eq by (simp add: well_formed_def)
qed

theorem disposal_detaches_nothing_witness:
  "length (instances (fst (step Dispose (run example_session (mount example_props))))) = 1 \<and>
   wired (instances (fst (step Dispose (run example_session (mount example_props)))) ! 0)"
proof -
  have "length (instances (fst (run example_session (mount example_props)))) = 1"
    by (simp add: example_defs)
  with disposal_detaches_nothing [of example_session example_props] show ?thesis
    by (auto simp: set_conv_nth)
qed

text \<open>
  Stated without the amendment the property fails: after disposal the client still holds the token-expiry handler,
  and a token expiry after disposal runs it, as the two notifications it sends show.
\<close>

theorem handlers_survive_disposal:
  "onTokenExpired (instances (fst (run [Effect example_props, InitResolves 0 True, Dispose]
                                    (mount example_props))) ! 0) = Some TokenExpiredHandler \<and>
   notified (fst (run [Effect example_props, InitResolves 0 True, Dispose, TokenExpires 0]
                    (mount example_props)))
     = [AuthStateChange 1 True None, AuthStateChange 1 False None, TokenExpired 2]"
  by (simp add: run_def mount_def initial_def initEffect_def run_cleanup_def Let_def
        init_then_def call_onAuthStateChange_def call_onTokenExpired_def fire_def
        instance_at_def new_Keycloak_def extractUser_def or_else_def example_props_def)

subsection \<open>Token expiry\<close>

text \<open>
  C7. In an authenticated session of a mounted provider, a token-expiry event of a
  client leaves \<open>isAuthenticated\<close> false and \<open>user\<close> null, invokes the state-changed
  callback with false and null and then the expiry callback (each when the props give
  one), and invokes no method of the client, so no \<open>updateToken\<close>.
\<close>

theorem token_expiry_ends_session:
  assumes "s = fst (run evs (mount p))"
    and "k < length (instances s)"
    and "isAuthenticated s"
    and "s' = fst (step (TokenExpires k) (run evs (mount p)))"
  shows "\<not> isAuthenticated s' \<and> user s' = None \<and>
         notified s' = notified s
           @ (case onAuthStateChangeRef s of None \<Rightarrow> []
              | Some cb \<Rightarrow> [AuthStateChange cb False None])
           @ (case onTokenExpiredRef s of None \<Rightarrow> [] | Some cb \<Rightarrow> [TokenExpired cb]) \<and>
         calls s' = calls s"
proof -
  from assms(1,2) have i: "instance_at s k = Some (instances s ! k)"
    and w: "wired (instances s ! k)"
    using reachable_instance_wired [of k evs p] by simp_all
  have "run evs (mount p) = (s, snd (run evs (mount p)))"
    using assms(1) by simp
  then have "s' = fire onTokenExpired k s"
    using assms(4) by (metis fst_conv step.simps(6))
  with i w have "s' = run_handler TokenExpiredHandler k s"
    by (simp add: fire_def wired_def)
  then show ?thesis
    by (simp add: call_onAuthStateChange_def call_onTokenExpired_def split: option.splits)
qed

theorem token_expiry_ends_session_witness:
  "0 < length (instances (fst (run example_session (mount example_props)))) \<and>
   isAuthenticated (fst (run example_session (mount example_props))) \<and>
   user (fst (run example_session (mount example_props))) \<noteq> None \<and>
   \<not> isAuthenticated (fst (step (TokenExpires 0) (run example_session (mount example_props)))) \<and>
   user (fst (step (TokenExpires 0) (run example_session (mount example_props)))) = None \<and>
   notified (fst (step (TokenExpires 0) (run example_session (mount example_props)))) =
     notified (fst (run example_session (mount example_props)))
       @ [AuthStateChange 1 False None, TokenExpired 2] \<and>
   calls (fst (step (TokenExpires 0) (run example_session (mount example_props)))) =
     calls (fst (run example_session (mount example_props)))"
proof -
  have a: "0 < length (instances (fst (run example_session (mount example_props))))"
    by (simp add: example_defs)
  have b: "isAuthenticated (fst (run example_session (mount example_props)))"
    by (simp add: example_defs)
  have c: "user (fst (run example_session (mount example_props))) \<noteq> None"
    by (simp add: example_defs)
  have d: "onAuthStateChangeRef (fst (run example_session (mount example_props))) = Some 1"
    by (simp add: example_defs)
  have e: "onTokenExpiredRef (fst (run example_session (mount example_props))) = Some 2"
    by (simp add: example_defs)
  from token_expiry_ends_session [OF refl a b refl] a b c d e show ?thesis
    by simp
qed

subsection \<open>The operations\<close>

text \<open>
  C8. Once initialization has succeeded (the provider holds a client), \<open>getToken\<close>
  invokes \<open>updateToken(30)\<close> on the client and then returns the access token the client
  holds after the refresh; when the refresh rejects it returns \<open>undefined\<close>. It never
  throws.
\<close>

theorem getToken_refreshes_first:
  assumes "s = fst (run evs (mount p))" and "provider.keycloak s = Some k"
  shows "\<exists>s'. getToken refresh s =
           (s', case refresh of Inl e \<Rightarrow> Inr None | Inr kc' \<Rightarrow> Inr (Keycloak.token kc')) \<and>
         calls s' = calls s @ [(k, UpdateToken 30)]"
proof -
  from assms well_formed_run [of evs p] have k: "k < length (instances s)"
    by (simp add: well_formed_def)
  show ?thesis
  proof (cases refresh)
    case (Inl e)
    with assms(2) show ?thesis
      by (simp add: getToken_def getToken_body_def try_catch_def Let_def)
  next
    case (Inr kc')
    with assms(2) k show ?thesis
      by (simp add: getToken_def getToken_body_def try_catch_def Let_def
            client_changes_def instance_at_def)
  qed
qed

theorem getToken_refreshes_first_witness:
  "provider.keycloak (fst (run example_session (mount example_props))) = Some 0 \<and>
   snd (getToken (Inr (example_client\<lparr>Keycloak.token := Some (str ''fresh'')\<rparr>))
          (fst (run example_session (mount example_props)))) = Inr (Some (str ''fresh'')) \<and>
   snd (getToken (Inl (Rejection (str ''expired'')))
          (fst (run example_session (mount example_props)))) = Inr None \<and>
   calls (fst (getToken (Inl (Rejection (str ''expired'')))
          (fst (run example_session (mount example_props))))) =
     calls (fst (run example_session (mount example_props))) @ [(0, UpdateToken 30)]"
proof -
  have a: "provider.keycloak (fst (run example_session (mount example_props))) = Some 0"
    by (simp add: example_defs)
  from getToken_refreshes_first [OF refl a,
         of "Inr (example_client\<lparr>Keycloak.token := Some (str ''fresh'')\<rparr>)"]
       getToken_refreshes_first [OF refl a, of "Inl (Rejection (str ''expired''))"] a
  show ?thesis by auto
qed

text \<open>The provider holds no client until an attempt has succeeded.\<close>

lemma no_client_before_success:
  "\<not> list_ex is_InitResolves evs \<Longrightarrow> provider.keycloak (fst (run evs (mount p))) = None"
proof (induction evs rule: rev_induct)
  case Nil
  show ?case by (simp add: run_Nil mount_def initial_def)
next
  case (snoc e evs)
  then have ih: "provider.keycloak (fst (run evs (mount p))) = None"
    and e: "\<not> is_InitResolves e"
    by simp_all
  obtain s c where m: "run evs (mount p) = (s, c)"
    by (cases "run evs (mount p)")
  with run_no_cleanup [of evs p] have c: "c = None" by simp
  from ih m have s: "provider.keycloak s = None" by simp
  have "provider.keycloak (fst (step e (s, None))) = None"
  proof (cases e)
    case (Effect p')
    with s show ?thesis by (simp add: initEffect_def Let_def run_cleanup_def)
  next
    case (InitRejects k x)
    with s show ?thesis by (simp add: init_catch_def call_fields)
  next
    case (InitResolves k a)
    with e show ?thesis by simp
  qed (use s in \<open>simp_all add: fire_fields client_changes_fields updateRefs_fields
         run_cleanup_def\<close>)
  with m c show ?case by (simp add: run_snoc)
qed

text \<open>
  C10, as amended. While the provider holds no client, \<open>signIn\<close>, \<open>signOut\<close>,
  \<open>signUp\<close> and \<open>getToken\<close> return and leave the state as it is, the record of the
  methods invoked on clients included; \<open>getToken\<close> returns \<open>undefined\<close>. A mounted
  provider holds no client as long as no initialization attempt has succeeded.
\<close>

theorem no_client_no_call:
  "(provider.keycloak s = None \<longrightarrow>
      signIn window outcome options s = (s, Inr ()) \<and>
      signOut window outcome options s = (s, Inr ()) \<and>
      signUp window outcome options s = (s, Inr ()) \<and>
      getToken refresh s = (s, Inr None)) \<and>
   (\<not> list_ex is_InitResolves evs \<longrightarrow> provider.keycloak (fst (run evs (mount p))) = None)"
  using no_client_before_success [of evs p]
  by (simp add: signIn_def signOut_def signUp_def getToken_def)

text \<open>Before the attempt has settled, and after it has failed.\<close>

theorem no_client_no_call_witness:
  "\<not> list_ex is_InitResolves [Effect example_props] \<and>
   provider.keycloak (fst (run [Effect example_props] (mount example_props))) = None \<and>
   signIn example_window None None (fst (run [Effect example_props] (mount example_props)))
     = (fst (run [Effect example_props] (mount example_props)), Inr ()) \<and>
   \<not> list_ex is_InitResolves
        [Effect example_props, InitRejects 0 (Rejection (str ''unreachable''))] \<and>
   provider.keycloak
     (fst (run [Effect example_props, InitRejects 0 (Rejection (str ''unreachable''))]
            (mount example_props))) = None \<and>
   getToken (Inr example_client)
     (fst (run [Effect example_props, InitRejects 0 (Rejection (str ''unreachable''))]
            (mount example_props)))
     = (fst (run [Effect example_props, InitRejects 0 (Rejection (str ''unreachable''))]
              (mount example_props)), Inr None)"
  using no_client_no_call
          [of "fst (run [Effect example_props] (mount example_props))"
              example_window None None "Inr example_client"
              "[Effect example_props]" example_props]
        no_client_no_call
          [of "fst (run [Effect example_props, InitRejects 0 (Rejection (str ''unreachable''))]
                     (mount example_props))"
              example_window None None "Inr example_client"
              "[Effect example_props, InitRejects 0 (Rejection (str ''unreachable''))]"
              example_props]
  by simp

text \<open>
  Stated with the handle null for good after a failed attempt the property fails: the
  setup logic runs again after the failure, the second attempt succeeds, the provider
  holds the second client, and \<open>signIn\<close> invokes its \<open>login\<close>.
\<close>

theorem client_after_failed_attempt:
  "provider.keycloak
     (fst (run [Effect example_props, InitRejects 0 (Rejection (str ''unreachable'')),
                Effect example_props, InitResolves 1 True] (mount example_props))) = Some 1 \<and>
   calls (fst (signIn example_window None None
     (fst (run [Effect example_props, InitRejects 0 (Rejection (str ''unreachable'')),
                Effect example_props, InitResolves 1 True] (mount example_props)))))
     = [(0, Init [(str ''pkceMethod'', JStr (str ''S256''))]),
        (1, Init [(str ''pkceMethod'', JStr (str ''S256''))]),
        (1, Login (str ''https://app.example.com/page''))]"
  by (simp add: example_defs signIn_def redirect_or_def example_window_def)

section \<open>Properties of the role guard\<close>

text \<open>
  With the client in the snapshot, the guard does what the props document: for every
  loaded, authenticated snapshot the guarded content is visible if and only if each
  role set that is given and not empty contains a role the client reports as held.
\<close>

lemma Protect_with_client:
  assumes "\<not> isLoading ctx" and "isAuthenticated ctx" and "keycloak ctx = Some kc"
  shows "fst (Protect props ctx) = Children \<longleftrightarrow>
           satisfied (hasResourceRole kc) (roles props) \<and>
           satisfied (hasRealmRole kc) (realmRoles props)"
  using assms
  by (auto simp: Protect_def satisfied_def some_def split: option.splits)

text \<open>
  A client that holds the resource role \<open>admin\<close> and no realm role: visible with resource
  roles \<open>editor\<close>, \<open>admin\<close>; hidden when a realm role is required as well.
\<close>

lemma Protect_with_client_example:
  "fst (Protect \<lparr> fallback = FallbackUndefined, loading = False,
                  roles = Some [str ''editor'', str ''admin''], realmRoles = None \<rparr>
          example_context) = Children \<and>
   fst (Protect \<lparr> fallback = FallbackUndefined, loading = False,
                  roles = Some [str ''editor'', str ''admin''],
                  realmRoles = Some [str ''offline_access''] \<rparr>
          example_context) \<noteq> Children"
proof -
  have a: "\<not> isLoading example_context" "isAuthenticated example_context"
    "keycloak example_context = Some example_client"
    by (simp_all add: example_context_def)
  have r: "hasResourceRole example_client = (\<lambda>role. role = str ''admin'')"
    "hasRealmRole example_client = (\<lambda>role. False)"
    by (simp_all add: example_client_def new_Keycloak_def)
  from Protect_with_client [OF a, of "\<lparr> fallback = FallbackUndefined, loading = False,
                  roles = Some [str ''editor'', str ''admin''], realmRoles = None \<rparr>"]
       Protect_with_client [OF a, of "\<lparr> fallback = FallbackUndefined, loading = False,
                  roles = Some [str ''editor'', str ''admin''],
                  realmRoles = Some [str ''offline_access''] \<rparr>"]
       r
  show ?thesis by (simp add: satisfied_def)
qed

text \<open>
  A provider reaches a loaded, authenticated state without a client in a single attempt:
  the client reports a login, and its \<open>init\<close> rejects afterwards.
\<close>

lemma authenticated_without_client_reachable:
  "\<not> isLoading (fst (run [Effect example_props, AuthSucceeds 0,
                           InitRejects 0 (Rejection (str ''unreachable''))]
                      (mount example_props))) \<and>
   isAuthenticated (fst (run [Effect example_props, AuthSucceeds 0,
                              InitRejects 0 (Rejection (str ''unreachable''))]
                         (mount example_props))) \<and>
   provider.keycloak (fst (run [Effect example_props, AuthSucceeds 0,
                                InitRejects 0 (Rejection (str ''unreachable''))]
                           (mount example_props))) = None"
  by (simp add: example_defs)

text \<open>
  C3. The property asks that, when no client can be queried for roles, every required
  role counts as not held and content with a role requirement is hidden. The code does
  not do so: for a loaded, authenticated snapshot without a client and the resource role
  \<open>admin\<close> required, \<open>Protect\<close> renders the children.
\<close>

theorem Protect_without_client_shows:
  "fst (Protect \<lparr> fallback = FallbackUndefined, loading = False,
                  roles = Some [str ''admin''], realmRoles = None \<rparr>
                \<lparr> isLoading = False, isAuthenticated = True, user = None,
                  idToken = None, accessToken = None, keycloak = None \<rparr>) = Children"
  by (simp add: Protect_def)

section \<open>Properties of the resolution of the user fields\<close>

lemma nullish_first_present: "nullish a (nullish b c) = first_present a b c"
  by (auto simp: nullish_def first_present_def present_def split: option.splits json.splits)

lemma tokenClaims_returns: "\<exists>c. tokenClaims env tok = Inr c"
  using decodeToken_returns by (simp add: tokenClaims_def split: option.splits)

text \<open>Neither component throws: each resolves its fields from some decoded claims.\<close>

lemma UserButton_returns:
  "\<exists>c. tokenClaims env (token props) = Inr c \<and>
       UserButton env props ctx = Inr (UserButton_resolve props c ctx)"
  using tokenClaims_returns [of env "token props"] by (auto simp: UserButton_def)

lemma UserAvatar_returns:
  "\<exists>c. tokenClaims env (token props) = Inr c \<and>
       UserAvatar env props ctx = Inr (UserAvatar_resolve props c ctx)"
  using tokenClaims_returns [of env "token props"] by (auto simp: UserAvatar_def)

text \<open>
  C6. For the image URL, the first name, the last name, the full name and the email of
  \<open>UserButton\<close>, and for the first four of \<open>UserAvatar\<close>, whatever the props, the decoded
  claims and the user of the context are: the resolved field is the explicit prop (as a
  string value) when present, else the member of the decoded claims object under the
  claim's name (\<open>picture\<close>, \<open>given_name\<close>, \<open>family_name\<close>, \<open>name\<close>, \<open>email\<close>) when
  present, else the field of the context's user; decoded claims that are no object have
  no member, and no user in the context gives \<open>undefined\<close>.
\<close>

theorem resolution_precedence:
  "resolvedImageUrl (UserButton_resolve props c ctx) =
     first_present (map_option JStr (imageUrl props))
       (case c of JObj kvs \<Rightarrow> map_of kvs (str ''picture'') | _ \<Rightarrow> None)
       (case ctx of None \<Rightarrow> None | Some u \<Rightarrow> user.imageUrl u) \<and>
   resolvedFirstName (UserButton_resolve props c ctx) =
     first_present (map_option JStr (firstName props))
       (case c of JObj kvs \<Rightarrow> map_of kvs (str ''given_name'') | _ \<Rightarrow> None)
       (case ctx of None \<Rightarrow> None | Some u \<Rightarrow> user.firstName u) \<and>
   resolvedLastName (UserButton_resolve props c ctx) =
     first_present (map_option JStr (lastName props))
       (case c of JObj kvs \<Rightarrow> map_of kvs (str ''family_name'') | _ \<Rightarrow> None)
       (case ctx of None \<Rightarrow> None | Some u \<Rightarrow> user.lastName u) \<and>
   resolvedName (UserButton_resolve props c ctx) =
     first_present (map_option JStr (name props))
       (case c of JObj kvs \<Rightarrow> map_of kvs (str ''name'') | _ \<Rightarrow> None)
       (case ctx of None \<Rightarrow> None | Some u \<Rightarrow> user.name u) \<and>
   resolvedEmail (UserButton_resolve props c ctx) =
     first_present (map_option JStr (email props))
       (case c of JObj kvs \<Rightarrow> map_of kvs (str ''email'') | _ \<Rightarrow> None)
       (case ctx of None \<Rightarrow> None | Some u \<Rightarrow> user.email u) \<and>
   resolvedImageUrl (UserAvatar_resolve props' c ctx) =
     first_present (map_option JStr (imageUrl props'))
       (case c of JObj kvs \<Rightarrow> map_of kvs (str ''picture'') | _ \<Rightarrow> None)
       (case ctx of None \<Rightarrow> None | Some u \<Rightarrow> user.imageUrl u) \<and>
   resolvedFirstName (UserAvatar_resolve props' c ctx) =
     first_present (map_option JStr (firstName props'))
       (case c of JObj kvs \<Rightarrow> map_of kvs (str ''given_name'') | _ \<Rightarrow> None)
       (case ctx of None \<Rightarrow> None | Some u \<Rightarrow> user.firstName u) \<and>
   resolvedLastName (UserAvatar_resolve props' c ctx) =
     first_present (map_option JStr (lastName props'))
       (case c of JObj kvs \<Rightarrow> map_of kvs (str ''family_name'') | _ \<Rightarrow> None)
       (case ctx of None \<Rightarrow> None | Some u \<Rightarrow> user.lastName u) \<and>
   resolvedName (UserAvatar_resolve props' c ctx) =
     first_present (map_option JStr (name props'))
       (case c of JObj kvs \<Rightarrow> map_of kvs (str ''name'') | _ \<Rightarrow> None)
       (case ctx of None \<Rightarrow> None | Some u \<Rightarrow> user.name u)"
  by (cases c; cases ctx)
     (simp_all add: UserButton_resolve_def UserAvatar_resolve_def nullish_first_present
        given_def claim_def of_user_def get_def)

text \<open>
  The image URL comes from the props, the first name from the claims although the
  context has one, the last name from the context because the claim is \<open>null\<close>, the
  email from the context, and the full name from nowhere.
\<close>

theorem resolution_precedence_witness:
  "resolvedImageUrl (UserButton_resolve example_button_props example_decoded (Some example_user))
     = Some (JStr (str ''/me.png'')) \<and>
   resolvedFirstName (UserButton_resolve example_button_props example_decoded (Some example_user))
     = Some (JStr (str ''A'')) \<and>
   resolvedLastName (UserButton_resolve example_button_props example_decoded (Some example_user))
     = Some (JStr (str ''B'')) \<and>
   resolvedName (UserButton_resolve example_button_props example_decoded (Some example_user))
     = None \<and>
   resolvedEmail (UserButton_resolve example_button_props example_decoded (Some example_user))
     = Some (JStr (str ''c@example.com'')) \<and>
   resolvedFirstName (UserAvatar_resolve example_button_props example_decoded None)
     = Some (JStr (str ''A'')) \<and>
   resolvedLastName (UserAvatar_resolve example_button_props example_decoded None) = None"
  using resolution_precedence
          [where props = example_button_props and c = example_decoded
             and ctx = "Some example_user" and props' = example_button_props]
        resolution_precedence
          [where props = example_button_props and c = example_decoded
             and ctx = None and props' = example_button_props]
  by (simp add: first_present_def present_def example_button_props_def example_decoded_def
        example_user_def str_eq_iff)

end
